theory Spec2Isabelle
  imports Main "HOL-Library.Product_Lexorder"
begin

section \<open>Text: whitespace, digits, decimal numbers\<close>

text \<open>
  The program is \<^verbatim>\<open>src/Main.py\<close>, a Tkinter to-do list with reminders. Its texts are
  Python strings; here a string is a list of 8-bit characters, read as the code points
  below 256. The whitespace of \<^verbatim>\<open>str.strip()\<close> and of the regular expression class
  \<^verbatim>\<open>\s\<close> among these code points is the set below; the decimal digits of \<^verbatim>\<open>\d\<close> are
  \<^verbatim>\<open>0\<close> to \<^verbatim>\<open>9\<close>.
\<close>

definition isspace :: "char \<Rightarrow> bool" where
  "isspace c = (c \<in> set [CHR 0x09, CHR 0x0A, CHR 0x0B, CHR 0x0C, CHR 0x0D,
                          CHR 0x1C, CHR 0x1D, CHR 0x1E, CHR 0x1F, CHR 0x20,
                          CHR 0x85, CHR 0xA0])"

definition strip :: "string \<Rightarrow> string" where
  "strip s = rev (dropWhile isspace (rev (dropWhile isspace s)))"

definition isdigit :: "char \<Rightarrow> bool" where
  "isdigit c = (c \<in> set ''0123456789'')"

definition digit_char :: "nat \<Rightarrow> char" where
  "digit_char n = ''0123456789'' ! n"

definition digit_val :: "char \<Rightarrow> nat" where
  "digit_val c = length (takeWhile (\<lambda>d. d \<noteq> c) ''0123456789'')"

text \<open>\<^verbatim>\<open>str(n)\<close> for a natural number, and for an integer.\<close>

fun str_nat :: "nat \<Rightarrow> string" where
  "str_nat n = (if n < 10 then [digit_char n]
                else str_nat (n div 10) @ [digit_char (n mod 10)])"

declare str_nat.simps [simp del]

definition str_int :: "int \<Rightarrow> string" where
  "str_int i = (if i < 0 then CHR ''-'' # str_nat (nat (- i)) else str_nat (nat i))"

text \<open>\<^verbatim>\<open>int(s)\<close> on a string of decimal digits, and \<^verbatim>\<open>%0wd\<close> formatting.\<close>

definition int_of_digits :: "string \<Rightarrow> nat" where
  "int_of_digits s = foldl (\<lambda>a c. 10 * a + digit_val c) 0 s"

definition zfill :: "nat \<Rightarrow> string \<Rightarrow> string" where
  "zfill w s = replicate (w - length s) (CHR ''0'') @ s"

section \<open>The calendar of the datetime library\<close>

text \<open>
  The arithmetic of Python's \<^verbatim>\<open>datetime\<close> module on the proleptic Gregorian calendar,
  after its reference implementation: day 1 is 0001-01-01. Index 0 of the two month
  tables is a placeholder, as there.
\<close>

definition is_leap :: "nat \<Rightarrow> bool" where
  "is_leap year = (year mod 4 = 0 \<and> (year mod 100 \<noteq> 0 \<or> year mod 400 = 0))"

definition DAYS_IN_MONTH :: "nat list" where
  "DAYS_IN_MONTH = [0, 31, 28, 31, 30, 31, 30, 31, 31, 30, 31, 30, 31]"

definition DAYS_BEFORE_MONTH :: "nat list" where
  "DAYS_BEFORE_MONTH = [0, 0, 31, 59, 90, 120, 151, 181, 212, 243, 273, 304, 334]"

definition days_before_year :: "nat \<Rightarrow> nat" where
  "days_before_year year = (let y = year - 1 in y * 365 + y div 4 - y div 100 + y div 400)"

definition days_in_month :: "nat \<Rightarrow> nat \<Rightarrow> nat" where
  "days_in_month year month =
     (if month = 2 \<and> is_leap year then 29 else DAYS_IN_MONTH ! month)"

definition days_before_month :: "nat \<Rightarrow> nat \<Rightarrow> nat" where
  "days_before_month year month =
     DAYS_BEFORE_MONTH ! month + (if month > 2 \<and> is_leap year then 1 else 0)"

definition ymd2ord :: "nat \<Rightarrow> nat \<Rightarrow> nat \<Rightarrow> nat" where
  "ymd2ord year month day = days_before_year year + days_before_month year month + day"

definition ord2ymd :: "nat \<Rightarrow> nat \<times> nat \<times> nat" where
  "ord2ymd ordinal =
     (let n = ordinal - 1;
          n400 = n div 146097; n = n mod 146097;
          year = n400 * 400 + 1;
          n100 = n div 36524; n = n mod 36524;
          n4 = n div 1461; n = n mod 1461;
          n1 = n div 365; n = n mod 365;
          year = year + n100 * 100 + n4 * 4 + n1
      in if n1 = 4 \<or> n100 = 4 then (year - 1, 12, 31)
         else
           let leapyear = (n1 = 3 \<and> (n4 \<noteq> 24 \<or> n100 = 3));
               month = (n + 50) div 32;
               preceding = DAYS_BEFORE_MONTH ! month + (if month > 2 \<and> leapyear then 1 else 0)
           in if preceding > n
              then (let month = month - 1;
                        preceding = preceding
                          - (DAYS_IN_MONTH ! month + (if month = 2 \<and> leapyear then 1 else 0))
                    in (year, month, n - preceding + 1))
              else (year, month, n - preceding + 1))"

section \<open>Naive datetimes\<close>

text \<open>
  A datetime without time zone is its fields (year, month, day, hour, minute, second);
  Python compares two of them field by field in this order, which is the lexicographic
  order of the tuples. The microsecond field is left out: every datetime the program
  stores has it zero, and then comparing with the clock reading cut to whole seconds
  gives the same answer.
\<close>

type_synonym datetime = "nat \<times> nat \<times> nat \<times> nat \<times> nat \<times> nat"

datatype error = ValueError | OverflowError | JSONDecodeError

definition valid_datetime :: "datetime \<Rightarrow> bool" where
  "valid_datetime dt =
     (case dt of (y, mo, d, h, mi, s) \<Rightarrow>
        1 \<le> y \<and> y \<le> 9999 \<and> 1 \<le> mo \<and> mo \<le> 12 \<and> 1 \<le> d \<and> d \<le> days_in_month y mo
        \<and> h < 24 \<and> mi < 60 \<and> s < 60)"

text \<open>
  \<^verbatim>\<open>dt - timedelta(hours=h, minutes=m)\<close>: the library turns the datetime into days and
  seconds, subtracts, and rebuilds the fields from the day number, raising OverflowError
  when that number leaves 1..3652059 (0001-01-01 to 9999-12-31). A timedelta too large
  to build raises OverflowError as well; with a lead time that is never negative both
  cases are the first branch.
\<close>

definition MAXORDINAL :: int where
  "MAXORDINAL = 3652059"

definition sub_timedelta :: "datetime \<Rightarrow> nat \<Rightarrow> nat \<Rightarrow> error + datetime" where
  "sub_timedelta dt hours minutes =
     (case dt of (y, mo, d, h, mi, s) \<Rightarrow>
        let total = int (ymd2ord y mo d) * 86400 + int (h * 3600 + mi * 60 + s)
                      - int (hours * 3600 + minutes * 60);
            days = total div 86400;
            secs = nat (total mod 86400)
        in if 0 < days \<and> days \<le> MAXORDINAL
           then (case ord2ymd (nat days) of (y', mo', d') \<Rightarrow>
                   Inr (y', mo', d', secs div 3600, (secs mod 3600) div 60, secs mod 60))
           else Inl OverflowError)"

text \<open>
  \<^verbatim>\<open>datetime.strptime(text, "%Y %d/%m %H:%M")\<close>. The library compiles the format to the
  regular expression
  \<^verbatim>\<open>(\d\d\d\d)\s+(3[0-1]|[1-2]\d|0[1-9]|[1-9]| [1-9])/(1[0-2]|0[1-9]|[1-9])\s+(2[0-3]|[0-1]\d|\d):([0-5]\d|\d)\<close>,
  matches it at the start of the text and fails when text is left over. Every field is
  followed by a character that is no digit, so each field is a whole run of digits of
  one of the listed shapes; the day shape with a leading blank gives nothing new after
  a greedy \<^verbatim>\<open>\s+\<close>. The fields then have to form a date of the calendar.
\<close>

definition day_token :: "string \<Rightarrow> bool" where
  "day_token s =
     (case s of
        [a] \<Rightarrow> a \<in> set ''123456789''
      | [a, b] \<Rightarrow> (a = CHR ''3'' \<and> b \<in> set ''01'') \<or> (a \<in> set ''12'' \<and> isdigit b)
                    \<or> (a = CHR ''0'' \<and> b \<in> set ''123456789'')
      | _ \<Rightarrow> False)"

definition month_token :: "string \<Rightarrow> bool" where
  "month_token s =
     (case s of
        [a] \<Rightarrow> a \<in> set ''123456789''
      | [a, b] \<Rightarrow> (a = CHR ''1'' \<and> b \<in> set ''012'') \<or> (a = CHR ''0'' \<and> b \<in> set ''123456789'')
      | _ \<Rightarrow> False)"

definition hour_token :: "string \<Rightarrow> bool" where
  "hour_token s =
     (case s of
        [a] \<Rightarrow> isdigit a
      | [a, b] \<Rightarrow> (a = CHR ''2'' \<and> b \<in> set ''0123'') \<or> (a \<in> set ''01'' \<and> isdigit b)
      | _ \<Rightarrow> False)"

definition minute_token :: "string \<Rightarrow> bool" where
  "minute_token s =
     (case s of
        [a] \<Rightarrow> isdigit a
      | [a, b] \<Rightarrow> a \<in> set ''012345'' \<and> isdigit b
      | _ \<Rightarrow> False)"

definition strptime :: "string \<Rightarrow> datetime option" where
  "strptime text =
     (let Y = take 4 text; r0 = drop 4 text;
          r1 = dropWhile isspace r0;
          D = takeWhile isdigit r1; r2 = dropWhile isdigit r1;
          M = takeWhile isdigit (drop 1 r2); r3 = dropWhile isdigit (drop 1 r2);
          r4 = dropWhile isspace r3;
          H = takeWhile isdigit r4; r5 = dropWhile isdigit r4;
          Mi = drop 1 r5
      in if length Y = 4 \<and> list_all isdigit Y
            \<and> r0 \<noteq> [] \<and> isspace (hd r0)
            \<and> day_token D \<and> take 1 r2 = ''/''
            \<and> month_token M \<and> r3 \<noteq> [] \<and> isspace (hd r3)
            \<and> hour_token H \<and> take 1 r5 = '':''
            \<and> minute_token Mi
         then (let year = int_of_digits Y; month = int_of_digits M; day = int_of_digits D
               in if 1 \<le> year \<and> day \<le> days_in_month year month
                  then Some (year, month, day, int_of_digits H, int_of_digits Mi, 0)
                  else None)
         else None)"

text \<open>
  \<^verbatim>\<open>dt.isoformat()\<close> writes \<^verbatim>\<open>YYYY-MM-DDTHH:MM:SS\<close>. \<^verbatim>\<open>datetime.fromisoformat\<close> is
  modelled on the texts of that shape (any single character may stand for the
  \<^verbatim>\<open>T\<close>), where it returns the datetime when the fields are in range and raises
  ValueError, here \<open>None\<close>, otherwise. The other spellings the library reads (a date
  alone, fractions of a second, a zone offset) are not part of this model and count as
  unreadable.
\<close>

definition isoformat :: "datetime \<Rightarrow> string" where
  "isoformat dt =
     (case dt of (y, mo, d, h, mi, s) \<Rightarrow>
        zfill 4 (str_nat y) @ ''-'' @ zfill 2 (str_nat mo) @ ''-'' @ zfill 2 (str_nat d) @ ''T''
        @ zfill 2 (str_nat h) @ '':'' @ zfill 2 (str_nat mi) @ '':'' @ zfill 2 (str_nat s))"

definition fromisoformat :: "string \<Rightarrow> datetime option" where
  "fromisoformat text =
     (let Y = take 4 text; M = take 2 (drop 5 text); D = take 2 (drop 8 text);
          H = take 2 (drop 11 text); Mi = take 2 (drop 14 text); S = take 2 (drop 17 text)
      in if length text = 19 \<and> list_all isdigit (Y @ M @ D @ H @ Mi @ S)
            \<and> text ! 4 = CHR ''-'' \<and> text ! 7 = CHR ''-''
            \<and> text ! 13 = CHR '':'' \<and> text ! 16 = CHR '':''
         then (let dt = (int_of_digits Y, int_of_digits M, int_of_digits D,
                         int_of_digits H, int_of_digits Mi, int_of_digits S)
               in if valid_datetime dt then Some dt else None)
         else None)"

text \<open>\<^verbatim>\<open>dt.strftime("%d/%m %H:%M")\<close>, the form the list shows.\<close>

definition strftime :: "datetime \<Rightarrow> string" where
  "strftime dt =
     (case dt of (y, mo, d, h, mi, s) \<Rightarrow>
        zfill 2 (str_nat d) @ ''/'' @ zfill 2 (str_nat mo) @ '' ''
        @ zfill 2 (str_nat h) @ '':'' @ zfill 2 (str_nat mi))"

section \<open>Tasks, the task file and the application state\<close>

text \<open>
  A task is a Python dict with the keys \<^verbatim>\<open>id\<close>, \<^verbatim>\<open>task\<close>, \<^verbatim>\<open>deadline\<close>,
  \<^verbatim>\<open>reminder_time\<close>, \<^verbatim>\<open>completed\<close> and \<^verbatim>\<open>reminded\<close>. The two timestamps are
  ISO texts. The keys \<^verbatim>\<open>id\<close> and \<^verbatim>\<open>reminded\<close> may be missing in a file written by an
  older version, and the code reads \<^verbatim>\<open>reminded\<close> with a default, so both are optional
  here. Tasks with other keys missing, or values of other types, are not modelled.
\<close>

record task_dict =
  id_field :: "string option"
  task :: string
  deadline :: string
  reminder_time :: string
  completed :: bool
  reminded :: "bool option"

text \<open>\<^verbatim>\<open>task.get("reminded", False)\<close>\<close>

definition get_reminded :: "task_dict \<Rightarrow> bool" where
  "get_reminded t = (case reminded t of None \<Rightarrow> False | Some b \<Rightarrow> b)"

text \<open>
  The file \<^verbatim>\<open>tasks.json\<close>: it does not exist, or it holds bytes that \<^verbatim>\<open>json.load\<close>
  rejects, or it holds the list of tasks that \<^verbatim>\<open>json.load\<close> returns, which is the list
  \<^verbatim>\<open>json.dump\<close> was given when the program wrote the file. Writing is taken to succeed.
\<close>

datatype file_content = Absent | Malformed | Json "task_dict list"

datatype dialog =
    ShowWarning string string
  | ShowInfo string string
  | ShowError string string
  | AskYesNo string string

text \<open>A row of the list widget: the four columns and the \<^verbatim>\<open>completed\<close> tag.\<close>

type_synonym row = "string \<times> string \<times> string \<times> string \<times> bool"

record app =
  tasks :: "task_dict list"
  task_file :: file_content
  task_tree :: "row list"
  dialogs :: "dialog list"
  reminders :: "(string \<times> string) list"

text \<open>
  \<open>tasks\<close> is \<^verbatim>\<open>self.tasks\<close>, \<open>task_file\<close> the content of the file named by
  \<^verbatim>\<open>self.task_file\<close>, \<open>task_tree\<close> the rows of \<^verbatim>\<open>self.task_tree\<close>, \<open>dialogs\<close> the
  message boxes shown so far and \<open>reminders\<close> the notifications sent so far, each with
  the task text and the deadline as displayed. An operation returns the new state and
  the exception that left it, if any.
\<close>

definition show_dialog :: "dialog \<Rightarrow> app \<Rightarrow> app" where
  "show_dialog d s = s\<lparr>dialogs := dialogs s @ [d]\<rparr>"

subsection \<open>save\_tasks and load\_tasks\<close>

definition save_tasks :: "app \<Rightarrow> app" where
  "save_tasks s = s\<lparr>task_file := Json (tasks s)\<rparr>"

text \<open>
  The repair of one loaded record, at position \<open>i\<close> of the file; \<open>millis\<close> is
  \<^verbatim>\<open>int(time.time() * 1000)\<close> as read while that record is handled.
\<close>

definition backfill :: "int \<Rightarrow> nat \<Rightarrow> task_dict \<Rightarrow> task_dict" where
  "backfill millis i t =
     (let t = (if reminded t = None then t\<lparr>reminded := Some False\<rparr> else t)
      in if id_field t = None
         then t\<lparr>id_field := Some (''legacy_'' @ str_nat i @ ''_'' @ str_int millis)\<rparr>
         else t)"

definition load_tasks :: "file_content \<Rightarrow> (nat \<Rightarrow> int) \<Rightarrow> error + task_dict list" where
  "load_tasks file clock =
     (case file of
        Absent \<Rightarrow> Inr []
      | Malformed \<Rightarrow> Inl JSONDecodeError
      | Json ts \<Rightarrow> Inr (map (\<lambda>(i, t). backfill (clock i) i t) (enumerate 0 ts)))"

subsection \<open>refresh\_task\_list\<close>

definition row_of :: "task_dict \<Rightarrow> error + row" where
  "row_of t =
     (let status = (if completed t then ''Completed''
                    else if get_reminded t then ''Reminded'' else ''Pending'')
      in case fromisoformat (deadline t) of
           None \<Rightarrow> Inl ValueError
         | Some d \<Rightarrow>
             (case fromisoformat (reminder_time t) of
                None \<Rightarrow> Inl ValueError
              | Some r \<Rightarrow> Inr (task t, strftime d, strftime r, status, completed t)))"

text \<open>The rows are inserted one by one: an exception leaves the rows before it.\<close>

fun insert_rows :: "task_dict list \<Rightarrow> row list \<times> error option" where
  "insert_rows [] = ([], None)"
| "insert_rows (t # ts) =
     (case row_of t of
        Inl e \<Rightarrow> ([], Some e)
      | Inr r \<Rightarrow> (case insert_rows ts of (rs, e) \<Rightarrow> (r # rs, e)))"

definition refresh_task_list :: "app \<Rightarrow> app \<times> error option" where
  "refresh_task_list s =
     (case insert_rows (tasks s) of (rs, e) \<Rightarrow> (s\<lparr>task_tree := rs\<rparr>, e))"

subsection \<open>add\_task\<close>

text \<open>
  The inputs are the two entry fields, the two lead time menus (which offer 0..23 hours
  and 0, 5, .., 55 minutes), the year of \<^verbatim>\<open>datetime.now()\<close> and the clock reading
  \<^verbatim>\<open>int(time.time() * 1000)\<close>.
\<close>

definition add_task ::
  "string \<Rightarrow> string \<Rightarrow> nat \<Rightarrow> nat \<Rightarrow> nat \<Rightarrow> int \<Rightarrow> app \<Rightarrow> app \<times> error option" where
  "add_task task_entry deadline_entry reminder_hours reminder_minutes current_year millis s =
     (let task_text = strip task_entry; deadline_text = strip deadline_entry
      in if task_text = []
         then (show_dialog (ShowWarning ''Input Error''
                 ''Task description cannot be empty.'') s, None)
         else
           (case strptime (str_nat current_year @ '' '' @ deadline_text) of
              None \<Rightarrow> (show_dialog (ShowWarning ''Input Error''
                          ''Invalid deadline format. Please use DD/MM HH:MM.'') s, None)
            | Some deadline_dt \<Rightarrow>
                (case sub_timedelta deadline_dt reminder_hours reminder_minutes of
                   Inl e \<Rightarrow> (s, Some e)
                 | Inr reminder_dt \<Rightarrow>
                     (let task_id = str_int millis;
                          new_task = \<lparr>id_field = Some task_id, task = task_text,
                                      deadline = isoformat deadline_dt,
                                      reminder_time = isoformat reminder_dt,
                                      completed = False, reminded = Some False\<rparr>;
                          s = save_tasks (s\<lparr>tasks := tasks s @ [new_task]\<rparr>)
                      in case refresh_task_list s of
                           (s, Some e) \<Rightarrow> (s, Some e)
                         | (s, None) \<Rightarrow>
                             (show_dialog (ShowInfo ''Task Added''
                                ''Task successfully added!'') s, None)))))"

subsection \<open>The selected row\<close>

text \<open>
  The operations on one task start alike: the selection of the list widget, here the
  position of the selected row if one is selected, is turned into an index of
  \<^verbatim>\<open>self.tasks\<close>. \<open>what\<close> is the end of the warning text.
\<close>

definition selected_index :: "string \<Rightarrow> nat option \<Rightarrow> app \<Rightarrow> dialog + nat" where
  "selected_index what selection s =
     (case selection of
        None \<Rightarrow> Inl (ShowWarning ''Selection Error'' (''Please select a task to '' @ what))
      | Some i \<Rightarrow>
          if \<not> i < length (task_tree s)
          then Inl (ShowError ''Error'' ''Could not find the selected task.'')
          else if i \<ge> length (tasks s)
          then Inl (ShowError ''Error'' ''Selected task index is out of range.'')
          else Inr i)"

subsection \<open>edit\_task\<close>

text \<open>
  \<open>edit_task\<close> opens the edit window for the selected task and returns; the window's
  Save button runs \<open>save_edit\<close> later, on the dict that was selected then. The list may
  have changed in between, so \<open>save_edit\<close> takes the place that dict has in
  \<^verbatim>\<open>self.tasks\<close> when Save is pressed, \<open>None\<close> when it has been deleted.
\<close>

definition edit_task :: "nat option \<Rightarrow> app \<Rightarrow> app \<times> nat option" where
  "edit_task selection s =
     (case selected_index ''edit.'' selection s of
        Inl d \<Rightarrow> (show_dialog d s, None)
      | Inr i \<Rightarrow> (s, Some i))"

definition save_edit :: "nat option \<Rightarrow> string \<Rightarrow> app \<Rightarrow> app \<times> error option" where
  "save_edit place new_task_entry s =
     (let new_text = strip new_task_entry
      in if new_text \<noteq> []
         then
           (let s = (case place of
                       None \<Rightarrow> s
                     | Some i \<Rightarrow> s\<lparr>tasks := (tasks s)[i := (tasks s ! i)\<lparr>task := new_text\<rparr>]\<rparr>);
                s = save_tasks s
            in case refresh_task_list s of
                 (s, Some e) \<Rightarrow> (s, Some e)
               | (s, None) \<Rightarrow>
                   (show_dialog (ShowInfo ''Success'' ''Task updated successfully!'') s, None))
         else (show_dialog (ShowWarning ''Input Error'' ''Task cannot be empty.'') s, None))"

subsection \<open>delete\_task, mark\_completed, reset\_reminder\<close>

definition delete_task :: "nat option \<Rightarrow> bool \<Rightarrow> app \<Rightarrow> app \<times> error option" where
  "delete_task selection answer s =
     (case selected_index ''delete.'' selection s of
        Inl d \<Rightarrow> (show_dialog d s, None)
      | Inr i \<Rightarrow>
          (let s = show_dialog (AskYesNo ''Confirm Delete''
                     (''Are you sure you want to delete '' @ [CHR 0x27] @ task (tasks s ! i)
                      @ [CHR 0x27] @ ''?'')) s
           in if answer
              then (let s = save_tasks (s\<lparr>tasks := take i (tasks s) @ drop (Suc i) (tasks s)\<rparr>)
                    in case refresh_task_list s of
                         (s, Some e) \<Rightarrow> (s, Some e)
                       | (s, None) \<Rightarrow>
                           (show_dialog (ShowInfo ''Success''
                              ''Task deleted successfully!'') s, None))
              else (s, None)))"

definition mark_completed :: "nat option \<Rightarrow> app \<Rightarrow> app \<times> error option" where
  "mark_completed selection s =
     (case selected_index ''mark as completed.'' selection s of
        Inl d \<Rightarrow> (show_dialog d s, None)
      | Inr i \<Rightarrow>
          (let selected_task = (tasks s ! i)\<lparr>completed := \<not> completed (tasks s ! i)\<rparr>;
               s = save_tasks (s\<lparr>tasks := (tasks s)[i := selected_task]\<rparr>)
           in case refresh_task_list s of
                (s, Some e) \<Rightarrow> (s, Some e)
              | (s, None) \<Rightarrow>
                  (show_dialog (ShowInfo ''Success''
                     (''Task marked as ''
                      @ (if completed selected_task then ''completed'' else ''pending'')
                      @ ''!'')) s, None)))"

definition reset_reminder :: "nat option \<Rightarrow> app \<Rightarrow> app \<times> error option" where
  "reset_reminder selection s =
     (case selected_index ''reset reminder.'' selection s of
        Inl d \<Rightarrow> (show_dialog d s, None)
      | Inr i \<Rightarrow>
          if get_reminded (tasks s ! i)
          then (let s = save_tasks (s\<lparr>tasks := (tasks s)[i := (tasks s ! i)\<lparr>reminded := Some False\<rparr>]\<rparr>)
                in case refresh_task_list s of
                     (s, Some e) \<Rightarrow> (s, Some e)
                   | (s, None) \<Rightarrow>
                       (show_dialog (ShowInfo ''Reminder Reset''
                          ''Reminder status has been reset. You will be reminded again when the time comes.'')
                          s, None))
          else (show_dialog (ShowInfo ''No Action Needed''
                  ''This task hasn't been reminded yet.'') s, None))"

subsection \<open>sort\_tasks\<close>

text \<open>
  \<^verbatim>\<open>list.sort(key=...)\<close> computes the key of every element first; an exception of the
  key function leaves the list as it was. The sort is stable, as \<open>sort_key\<close> is.
\<close>

definition deadline_keys :: "task_dict list \<Rightarrow> (datetime \<times> task_dict) list option" where
  "deadline_keys ts =
     those (map (\<lambda>t. map_option (\<lambda>k. (k, t)) (fromisoformat (deadline t))) ts)"

definition sort_tasks :: "app \<Rightarrow> app \<times> error option" where
  "sort_tasks s =
     (case deadline_keys (tasks s) of
        None \<Rightarrow> (s, Some ValueError)
      | Some keyed \<Rightarrow>
          (let s = s\<lparr>tasks := map snd (sort_key fst keyed)\<rparr>
           in case refresh_task_list s of
                (s, Some e) \<Rightarrow> (s, Some e)
              | (s, None) \<Rightarrow>
                  (show_dialog (ShowInfo ''Tasks Sorted''
                     ''Tasks have been sorted by their deadline.'') s, None)))"

subsection \<open>check\_reminders and trigger\_reminder\<close>

text \<open>
  \<open>trigger_reminder\<close> reads the task text and formats the deadline before it starts any
  notification channel, so a deadline that cannot be read raises before anything is
  shown. Its result here is what the channels are given.
\<close>

definition trigger_reminder :: "task_dict \<Rightarrow> error + (string \<times> string)" where
  "trigger_reminder t =
     (case fromisoformat (deadline t) of
        None \<Rightarrow> Inl ValueError
      | Some d \<Rightarrow> Inr (task t, strftime d))"

text \<open>
  The body of the loop for one task: the task after it and the notifications sent.
  The handler \<^verbatim>\<open>except ValueError: continue\<close> covers the reading of the reminder time
  and the call of \<open>trigger_reminder\<close>.
\<close>

definition check_task :: "datetime \<Rightarrow> task_dict \<Rightarrow> task_dict \<times> (string \<times> string) list" where
  "check_task now t =
     (if \<not> completed t \<and> \<not> get_reminded t
      then (case fromisoformat (reminder_time t) of
              None \<Rightarrow> (t, [])
            | Some reminder_dt \<Rightarrow>
                if now \<ge> reminder_dt
                then (case trigger_reminder t of
                        Inl e \<Rightarrow> (t, [])
                      | Inr n \<Rightarrow> (t\<lparr>reminded := Some True\<rparr>, [n]))
                else (t, []))
      else (t, []))"

fun check_loop :: "datetime \<Rightarrow> task_dict list \<Rightarrow> task_dict list \<times> (string \<times> string) list" where
  "check_loop now [] = ([], [])"
| "check_loop now (t # ts) =
     (case check_task now t of (t', n) \<Rightarrow>
        (case check_loop now ts of (ts', ns) \<Rightarrow> (t' # ts', n @ ns)))"

definition check_reminders :: "datetime \<Rightarrow> app \<Rightarrow> app \<times> error option" where
  "check_reminders now s =
     (case check_loop now (tasks s) of (ts, ns) \<Rightarrow>
        refresh_task_list (save_tasks (s\<lparr>tasks := ts, reminders := reminders s @ ns\<rparr>)))"

subsection \<open>The constructor\<close>

text \<open>
  \<^verbatim>\<open>ToDoApp()\<close> loads the tasks, fills the list widget and runs the first check of the
  reminders; an exception of any of the three leaves the constructor, and the program
  ends before its main loop starts.
\<close>

definition init :: "file_content \<Rightarrow> (nat \<Rightarrow> int) \<Rightarrow> datetime \<Rightarrow> error + app" where
  "init file clock now =
     (case load_tasks file clock of
        Inl e \<Rightarrow> Inl e
      | Inr ts \<Rightarrow>
          (case refresh_task_list \<lparr>tasks = ts, task_file = file, task_tree = [],
                                    dialogs = [], reminders = []\<rparr> of
             (s, Some e) \<Rightarrow> Inl e
           | (s, None) \<Rightarrow>
               (case check_reminders now s of
                  (s, Some e) \<Rightarrow> Inl e
                | (s, None) \<Rightarrow> Inr s)))"

subsection \<open>Sample data\<close>

text \<open>
  A clock that stands still while a file is loaded, a task with a given text, deadline,
  reminder time and flags, and the state of the program right after it has saved and
  displayed a list of tasks. They serve as concrete inputs below.
\<close>

definition frozen_clock :: "int \<Rightarrow> nat \<Rightarrow> int" where
  "frozen_clock millis i = millis"

definition sample_task :: "string \<Rightarrow> string \<Rightarrow> string \<Rightarrow> bool \<Rightarrow> bool option \<Rightarrow> task_dict" where
  "sample_task name dl rt c r =
     \<lparr>id_field = Some ''1762000000000'', task = name, deadline = dl, reminder_time = rt,
      completed = c, reminded = r\<rparr>"

definition sample_app :: "task_dict list \<Rightarrow> app" where
  "sample_app ts =
     \<lparr>tasks = ts, task_file = Json ts, task_tree = fst (insert_rows ts),
      dialogs = [], reminders = []\<rparr>"

section \<open>Evaluation of the definitions\<close>

lemmas text_defs =
  isdigit_def isspace_def digit_char_def digit_val_def int_of_digits_def zfill_def strip_def

lemmas calendar_defs =
  is_leap_def DAYS_IN_MONTH_def DAYS_BEFORE_MONTH_def days_before_year_def days_in_month_def
  days_before_month_def ymd2ord_def ord2ymd_def MAXORDINAL_def

lemmas datetime_defs =
  valid_datetime_def sub_timedelta_def day_token_def month_token_def hour_token_def
  minute_token_def strptime_def isoformat_def fromisoformat_def strftime_def

lemmas sample_defs = frozen_clock_def sample_task_def sample_app_def

text \<open>What the end of every operation, the redisplay and a last dialog, leaves alone.\<close>

lemma finish_tasks [simp]:
  "tasks (fst (case refresh_task_list s of
                 (s', Some e) \<Rightarrow> (s', Some e)
               | (s', None) \<Rightarrow> (show_dialog d s', None))) = tasks s"
  by (simp add: refresh_task_list_def show_dialog_def split: prod.splits option.splits)

lemma finish_task_file [simp]:
  "task_file (fst (case refresh_task_list s of
                     (s', Some e) \<Rightarrow> (s', Some e)
                   | (s', None) \<Rightarrow> (show_dialog d s', None))) = task_file s"
  by (simp add: refresh_task_list_def show_dialog_def split: prod.splits option.splits)

lemma finish_reminders [simp]:
  "reminders (fst (case refresh_task_list s of
                     (s', Some e) \<Rightarrow> (s', Some e)
                   | (s', None) \<Rightarrow> (show_dialog d s', None))) = reminders s"
  by (simp add: refresh_task_list_def show_dialog_def split: prod.splits option.splits)

lemma refresh_keeps [simp]:
  "tasks (fst (refresh_task_list s)) = tasks s"
  "task_file (fst (refresh_task_list s)) = task_file s"
  "dialogs (fst (refresh_task_list s)) = dialogs s"
  "reminders (fst (refresh_task_list s)) = reminders s"
  by (simp_all add: refresh_task_list_def split: prod.splits)

section \<open>Sorting by deadline\<close>

text \<open>
  C1. The claim: \<open>sort_tasks\<close> reorders the list in memory ascending by deadline and then
  writes the new order to the task file. The code sorts and redisplays the list but does
  not call \<open>save_tasks\<close>, as every other operation that changes the list does. With a
  task due on 2 January before a task due on 1 January, in memory and in the file, the
  list in memory is reordered and the file keeps the old order.
\<close>

theorem sort_tasks_leaves_file:
  "tasks (fst (sort_tasks (sample_app
      [sample_task ''later'' ''2025-01-02T10:00:00'' ''2025-01-02T09:00:00'' False (Some False),
       sample_task ''sooner'' ''2025-01-01T09:00:00'' ''2025-01-01T08:00:00'' False (Some False)])))
     = [sample_task ''sooner'' ''2025-01-01T09:00:00'' ''2025-01-01T08:00:00'' False (Some False),
        sample_task ''later'' ''2025-01-02T10:00:00'' ''2025-01-02T09:00:00'' False (Some False)]
   \<and> task_file (fst (sort_tasks (sample_app
      [sample_task ''later'' ''2025-01-02T10:00:00'' ''2025-01-02T09:00:00'' False (Some False),
       sample_task ''sooner'' ''2025-01-01T09:00:00'' ''2025-01-01T08:00:00'' False (Some False)])))
     = Json [sample_task ''later'' ''2025-01-02T10:00:00'' ''2025-01-02T09:00:00'' False (Some False),
             sample_task ''sooner'' ''2025-01-01T09:00:00'' ''2025-01-01T08:00:00'' False (Some False)]
   \<and> snd (sort_tasks (sample_app
      [sample_task ''later'' ''2025-01-02T10:00:00'' ''2025-01-02T09:00:00'' False (Some False),
       sample_task ''sooner'' ''2025-01-01T09:00:00'' ''2025-01-01T08:00:00'' False (Some False)]))
     = None"
  by (simp add: sort_tasks_def deadline_keys_def refresh_task_list_def row_of_def
      show_dialog_def fromisoformat_def text_defs valid_datetime_def days_in_month_def
      DAYS_IN_MONTH_def is_leap_def get_reminded_def sample_defs)

section \<open>Identifiers of new tasks\<close>

text \<open>
  C2. The claim: every call of \<open>add_task\<close> gives the new task an id distinct from the id
  of every task of the store, also for two calls in immediate succession. The id is the
  clock reading in milliseconds and nothing compares it with the ids in the list: two
  calls that read the same millisecond give the same id.
\<close>

theorem add_task_same_millis_same_id:
  "map id_field (tasks (fst (add_task ''second'' ''26/12 10:30'' 0 5 2025 1762000000000
      (fst (add_task ''first'' ''25/12 09:00'' 1 0 2025 1762000000000 (sample_app []))))))
     = [Some ''1762000000000'', Some ''1762000000000'']
   \<and> map task (tasks (fst (add_task ''second'' ''26/12 10:30'' 0 5 2025 1762000000000
      (fst (add_task ''first'' ''25/12 09:00'' 1 0 2025 1762000000000 (sample_app []))))))
     = [''first'', ''second'']"
  by (simp add: Let_def add_task_def save_tasks_def str_int_def str_nat.simps text_defs
      calendar_defs datetime_defs sample_defs)

section \<open>Loading a task file\<close>

text \<open>
  C3. The claim: a file that cannot be read as a task list does not end the program;
  the store starts empty. As stated the claim fails: with a file that is no JSON
  document the constructor ends with the decoder's exception.
\<close>

theorem init_malformed_counterexample:
  "init Malformed (frozen_clock 1762000000000) (2025, 11, 1, 12, 0, 0) = Inl JSONDecodeError"
  by (simp add: load_tasks_def init_def)

text \<open>
  C3, amended. When the file is no JSON document, \<open>load_tasks\<close> raises JSONDecodeError
  and so does the constructor: there is no store and no dialog. When there is no file,
  \<open>load_tasks\<close> returns the empty list and the program starts with an empty store,
  which its first check of the reminders writes to the file.
\<close>

theorem load_tasks_malformed_or_absent:
  "load_tasks Malformed clock = Inl JSONDecodeError
   \<and> init Malformed clock now = Inl JSONDecodeError
   \<and> load_tasks Absent clock = Inr []
   \<and> init Absent clock now
       = Inr \<lparr>tasks = [], task_file = Json [], task_tree = [], dialogs = [], reminders = []\<rparr>"
  by (simp add: load_tasks_def init_def refresh_task_list_def check_reminders_def
      save_tasks_def)

section \<open>The check of the reminders\<close>

lemma check_task_twice:
  "check_task now (fst (check_task now t)) = (fst (check_task now t), [])"
  by (simp add: check_task_def get_reminded_def trigger_reminder_def
      split: option.splits sum.splits)

lemma check_loop_twice:
  "check_loop now (fst (check_loop now ts)) = (fst (check_loop now ts), [])"
proof (induction ts)
  case Nil
  show ?case by simp
next
  case (Cons t ts)
  obtain t' n where a: "check_task now t = (t', n)"
    by (cases "check_task now t")
  obtain ts' ns where b: "check_loop now ts = (ts', ns)"
    by (cases "check_loop now ts")
  from check_task_twice [of now t] a have c: "check_task now t' = (t', [])"
    by simp
  from Cons.IH b have d: "check_loop now ts' = (ts', [])"
    by simp
  show ?case
    by (simp add: a b c d)
qed

text \<open>
  C6. Run twice in a row at the same time, the check sends nothing the second time:
  the notifications sent and the tasks are those after the first run. This holds for
  every state and every time.
\<close>

theorem check_reminders_twice:
  "reminders (fst (check_reminders now (fst (check_reminders now s))))
     = reminders (fst (check_reminders now s))
   \<and> tasks (fst (check_reminders now (fst (check_reminders now s))))
     = tasks (fst (check_reminders now s))"
proof -
  obtain ts ns where a: "check_loop now (tasks s) = (ts, ns)"
    by (cases "check_loop now (tasks s)")
  from check_loop_twice [of now "tasks s"] a have b: "check_loop now ts = (ts, [])"
    by simp
  show ?thesis
    by (simp add: check_reminders_def a b save_tasks_def refresh_task_list_def
        split: prod.splits)
qed

section \<open>Input that add\_task rejects\<close>

text \<open>
  C8. When the description is empty after trimming, or the deadline does not parse
  (the year of the clock, a blank and the trimmed entry, under \<open>strptime\<close>), \<open>add_task\<close>
  leaves the list and the file as they are, raises nothing and shows one warning.
\<close>

theorem add_task_rejects:
  assumes "strip task_entry = []
           \<or> strptime (str_nat current_year @ '' '' @ strip deadline_entry) = None"
  shows "case add_task task_entry deadline_entry reminder_hours reminder_minutes
                current_year millis s of
           (s', e) \<Rightarrow>
             tasks s' = tasks s \<and> task_file s' = task_file s \<and> e = None
             \<and> (\<exists>msg. dialogs s' = dialogs s @ [ShowWarning ''Input Error'' msg])"
  using assms
  by (auto simp add: add_task_def show_dialog_def Let_def)

theorem add_task_rejects_witness:
  "strip ''   '' = []
   \<and> tasks (fst (add_task ''   '' ''25/12 09:00'' 1 0 2025 1762000000000 (sample_app []))) = []
   \<and> task_file (fst (add_task ''   '' ''25/12 09:00'' 1 0 2025 1762000000000 (sample_app [])))
       = Json []
   \<and> strptime (str_nat 2025 @ '' '' @ strip ''31/02 10:00'') = None
   \<and> tasks (fst (add_task ''pay rent'' ''31/02 10:00'' 1 0 2025 1762000000000 (sample_app [])))
       = []
   \<and> task_file (fst (add_task ''pay rent'' ''31/02 10:00'' 1 0 2025 1762000000000
                       (sample_app []))) = Json []"
proof -
  have a: "strip ''   '' = []"
    by (simp add: text_defs)
  have b: "strptime (str_nat 2025 @ '' '' @ strip ''31/02 10:00'') = None"
    by (simp add: str_nat.simps text_defs datetime_defs calendar_defs)
  from add_task_rejects [where task_entry = "''   ''" and current_year = 2025
      and deadline_entry = "''25/12 09:00''" and reminder_hours = 1 and reminder_minutes = 0
      and millis = 1762000000000 and s = "sample_app []"] a
  have c: "tasks (fst (add_task ''   '' ''25/12 09:00'' 1 0 2025 1762000000000 (sample_app [])))
             = tasks (sample_app [])
           \<and> task_file (fst (add_task ''   '' ''25/12 09:00'' 1 0 2025 1762000000000
               (sample_app []))) = task_file (sample_app [])"
    by (simp add: case_prod_unfold)
  from add_task_rejects [where task_entry = "''pay rent''" and current_year = 2025
      and deadline_entry = "''31/02 10:00''" and reminder_hours = 1 and reminder_minutes = 0
      and millis = 1762000000000 and s = "sample_app []"] b
  have d: "tasks (fst (add_task ''pay rent'' ''31/02 10:00'' 1 0 2025 1762000000000
               (sample_app []))) = tasks (sample_app [])
           \<and> task_file (fst (add_task ''pay rent'' ''31/02 10:00'' 1 0 2025 1762000000000
               (sample_app []))) = task_file (sample_app [])"
    by (simp add: case_prod_unfold)
  show ?thesis
    using a b c d by (simp add: sample_app_def)
qed

section \<open>Resetting a reminder\<close>

text \<open>
  C9. On a selected task that has been reminded, \<open>reset_reminder\<close> clears the flag of
  that task and writes the list to the file; on a selected task that has not been
  reminded it changes neither the list nor the file.
\<close>

theorem reset_reminder_effect:
  assumes "selection = Some i" and "i < length (task_tree s)" and "i < length (tasks s)"
  shows "case reset_reminder selection s of
           (s', e) \<Rightarrow>
             if get_reminded (tasks s ! i)
             then tasks s' = (tasks s)[i := (tasks s ! i)\<lparr>reminded := Some False\<rparr>]
                  \<and> task_file s' = Json (tasks s')
             else tasks s' = tasks s \<and> task_file s' = task_file s"
  using assms
  by (simp add: reset_reminder_def selected_index_def save_tasks_def show_dialog_def
      refresh_task_list_def Let_def split: prod.splits option.splits)

theorem reset_reminder_effect_witness:
  "0 < length (task_tree (sample_app
     [sample_task ''call the bank'' ''2025-01-02T10:00:00'' ''2025-01-02T09:00:00'' False (Some True)]))
   \<and> get_reminded
        (sample_task ''call the bank'' ''2025-01-02T10:00:00'' ''2025-01-02T09:00:00'' False (Some True))
   \<and> tasks (fst (reset_reminder (Some 0) (sample_app
     [sample_task ''call the bank'' ''2025-01-02T10:00:00'' ''2025-01-02T09:00:00'' False (Some True)])))
     = [sample_task ''call the bank'' ''2025-01-02T10:00:00'' ''2025-01-02T09:00:00'' False (Some False)]
   \<and> task_file (fst (reset_reminder (Some 0) (sample_app
     [sample_task ''call the bank'' ''2025-01-02T10:00:00'' ''2025-01-02T09:00:00'' False (Some True)])))
     = Json [sample_task ''call the bank'' ''2025-01-02T10:00:00'' ''2025-01-02T09:00:00'' False (Some False)]
   \<and> tasks (fst (reset_reminder (Some 0) (sample_app
     [sample_task ''call the bank'' ''2025-01-02T10:00:00'' ''2025-01-02T09:00:00'' False (Some False)])))
     = [sample_task ''call the bank'' ''2025-01-02T10:00:00'' ''2025-01-02T09:00:00'' False (Some False)]
   \<and> task_file (fst (reset_reminder (Some 0) (sample_app
     [sample_task ''call the bank'' ''2025-01-02T10:00:00'' ''2025-01-02T09:00:00'' False (Some False)])))
     = Json [sample_task ''call the bank'' ''2025-01-02T10:00:00'' ''2025-01-02T09:00:00'' False (Some False)]"
proof -
  let ?t = "sample_task ''call the bank'' ''2025-01-02T10:00:00'' ''2025-01-02T09:00:00'' False (Some True)"
  let ?u = "sample_task ''call the bank'' ''2025-01-02T10:00:00'' ''2025-01-02T09:00:00'' False (Some False)"
  have len: "length (task_tree (sample_app [?t])) = 1" "length (task_tree (sample_app [?u])) = 1"
    by (simp_all add: sample_defs row_of_def fromisoformat_def text_defs valid_datetime_def
        days_in_month_def DAYS_IN_MONTH_def is_leap_def)
  have tl: "tasks (sample_app [?t]) = [?t]" "tasks (sample_app [?u]) = [?u]"
    by (simp_all add: sample_app_def)
  have fl: "task_file (sample_app [?t]) = Json [?t]" "task_file (sample_app [?u]) = Json [?u]"
    by (simp_all add: sample_app_def)
  have g: "get_reminded ?t" "\<not> get_reminded ?u"
    by (simp_all add: get_reminded_def sample_task_def)
  have u: "?t\<lparr>reminded := Some False\<rparr> = ?u"
    by (simp add: sample_task_def)
  from reset_reminder_effect [where selection = "Some 0" and i = 0 and s = "sample_app [?t]"]
  have a: "tasks (fst (reset_reminder (Some 0) (sample_app [?t]))) = [?u]
           \<and> task_file (fst (reset_reminder (Some 0) (sample_app [?t]))) = Json [?u]"
    by (simp add: case_prod_unfold len tl fl g u)
  from reset_reminder_effect [where selection = "Some 0" and i = 0 and s = "sample_app [?u]"]
  have b: "tasks (fst (reset_reminder (Some 0) (sample_app [?u]))) = [?u]
           \<and> task_file (fst (reset_reminder (Some 0) (sample_app [?u]))) = Json [?u]"
    by (simp add: case_prod_unfold len tl fl g)
  show ?thesis
    using a b g len by simp
qed

section \<open>Editing the text of a task\<close>

text \<open>
  C10. Saving an edit with a text that is not empty after trimming changes the text of
  the edited task and nothing else: the list keeps its length, the other fields of the
  task and every other task stay as they were.
\<close>

theorem save_edit_frame:
  assumes "i < length (tasks s)" and "strip new_task_entry \<noteq> []"
  shows "case save_edit (Some i) new_task_entry s of
           (s', e) \<Rightarrow>
             length (tasks s') = length (tasks s)
             \<and> tasks s' ! i = (tasks s ! i)\<lparr>task := strip new_task_entry\<rparr>
             \<and> id_field (tasks s' ! i) = id_field (tasks s ! i)
             \<and> deadline (tasks s' ! i) = deadline (tasks s ! i)
             \<and> reminder_time (tasks s' ! i) = reminder_time (tasks s ! i)
             \<and> completed (tasks s' ! i) = completed (tasks s ! i)
             \<and> reminded (tasks s' ! i) = reminded (tasks s ! i)
             \<and> (\<forall>j < length (tasks s). j \<noteq> i \<longrightarrow> tasks s' ! j = tasks s ! j)"
  using assms
  by (simp add: save_edit_def save_tasks_def show_dialog_def refresh_task_list_def Let_def
      split: prod.splits option.splits)

theorem save_edit_frame_witness:
  "1 < length (tasks (sample_app
     [sample_task ''call the bank'' ''2025-01-02T10:00:00'' ''2025-01-02T09:00:00'' False (Some True),
      sample_task ''buy bread'' ''2025-01-03T18:00:00'' ''2025-01-03T17:30:00'' False (Some False)]))
   \<and> strip ''  buy milk '' = ''buy milk''
   \<and> tasks (fst (save_edit (Some 1) ''  buy milk '' (sample_app
     [sample_task ''call the bank'' ''2025-01-02T10:00:00'' ''2025-01-02T09:00:00'' False (Some True),
      sample_task ''buy bread'' ''2025-01-03T18:00:00'' ''2025-01-03T17:30:00'' False (Some False)])))
     = [sample_task ''call the bank'' ''2025-01-02T10:00:00'' ''2025-01-02T09:00:00'' False (Some True),
        sample_task ''buy milk'' ''2025-01-03T18:00:00'' ''2025-01-03T17:30:00'' False (Some False)]"
proof -
  let ?a = "sample_task ''call the bank'' ''2025-01-02T10:00:00'' ''2025-01-02T09:00:00'' False (Some True)"
  let ?b = "sample_task ''buy bread'' ''2025-01-03T18:00:00'' ''2025-01-03T17:30:00'' False (Some False)"
  let ?b' = "sample_task ''buy milk'' ''2025-01-03T18:00:00'' ''2025-01-03T17:30:00'' False (Some False)"
  let ?r = "tasks (fst (save_edit (Some 1) ''  buy milk '' (sample_app [?a, ?b])))"
  have st: "strip ''  buy milk '' = ''buy milk''"
    by (simp add: text_defs)
  have tl: "tasks (sample_app [?a, ?b]) = [?a, ?b]"
    by (simp add: sample_app_def)
  have len: "1 < length (tasks (sample_app [?a, ?b]))"
    by (simp add: tl)
  have ne: "strip ''  buy milk '' \<noteq> []"
    by (simp add: st)
  have up: "?b\<lparr>task := ''buy milk''\<rparr> = ?b'"
    by (simp add: sample_task_def)
  from save_edit_frame [OF len ne]
  have th: "length ?r = 2 \<and> ?r ! 1 = ?b'
            \<and> (\<forall>j < 2. j \<noteq> 1 \<longrightarrow> ?r ! j = [?a, ?b] ! j)"
    by (simp add: case_prod_unfold st tl up)
  then have z: "?r ! 0 = ?a"
    by simp
  from th have l2: "length ?r = 2" and o: "?r ! 1 = ?b'"
    by simp_all
  have "?r = [?a, ?b']"
  proof (rule nth_equalityI)
    show "length ?r = length [?a, ?b']"
      using l2 by simp
  next
    fix i assume "i < length ?r"
    then have "i = 0 \<or> i = 1"
      using l2 by auto
    then show "?r ! i = [?a, ?b'] ! i"
      using z o by auto
  qed
  then show ?thesis
    using st len by simp
qed

end
